theory Spec2Isabelle
  imports Main "HOL-Library.Sublist"
begin

section \<open>Python strings: \<open>str.split()\<close> and \<open>str.lower()\<close>\<close>

text \<open>
  Source text is modelled as \<open>string\<close>; a character stands for the code point of the
  same number (0..255). \<open>isspace\<close> lists the code points below 256 for which Python's
  \<open>str.isspace()\<close> holds: TAB..CR, the separators FS..US, SPACE, NEL and NBSP.
\<close>

definition isspace :: "char \<Rightarrow> bool" where
  "isspace c =
     (let n = (of_char c :: nat)
      in (9 \<le> n \<and> n \<le> 13) \<or> (28 \<le> n \<and> n \<le> 32) \<or> n = 133 \<or> n = 160)"

text \<open>
  \<open>code.split()\<close> without a separator: runs of whitespace separate the tokens, and no
  token is empty. \<open>split_acc cur s\<close> scans \<open>s\<close> with the token read so far in \<open>cur\<close>.
\<close>

fun split_acc :: "string \<Rightarrow> string \<Rightarrow> string list" where
  "split_acc cur [] = (if cur = [] then [] else [cur])"
| "split_acc cur (c # cs) =
     (if isspace c
      then (if cur = [] then split_acc [] cs else cur # split_acc [] cs)
      else split_acc (cur @ [c]) cs)"

definition split :: "string \<Rightarrow> string list" where
  "split s = split_acc [] s"

text \<open>
  \<open>language.lower()\<close> on code points below 256: A..Z and the Latin-1 capitals
  (0xC0..0xDE without the multiplication sign 0xD7) move up by 32.
\<close>

definition char_lower :: "char \<Rightarrow> char" where
  "char_lower c =
     (let n = (of_char c :: nat)
      in if (65 \<le> n \<and> n \<le> 90) \<or> (192 \<le> n \<and> n \<le> 222 \<and> n \<noteq> 215)
         then char_of (n + 32) else c)"

definition lower :: "string \<Rightarrow> string" where
  "lower s = map char_lower s"

section \<open>Paths (\<open>pathlib.Path\<close> on a POSIX host)\<close>

text \<open>
  \<open>split_on sep s\<close> is \<open>s.split(sep)\<close> with an explicit separator: empty pieces are kept.
\<close>

fun split_on :: "char \<Rightarrow> string \<Rightarrow> string list" where
  "split_on sep [] = [[]]"
| "split_on sep (c # cs) =
     (if c = sep then [] # split_on sep cs
      else (case split_on sep cs of
              [] \<Rightarrow> [[c]]
            | x # xs \<Rightarrow> (c # x) # xs))"

text \<open>
  A path is its root (\<open>''''\<close>, \<open>''/''\<close> or \<open>''//''\<close>) and its components. Parsing drops
  empty components and \<open>.\<close>; exactly two leading slashes are a root of their own.
\<close>

datatype path = Path (root: string) (parts: "string list")

definition path_root :: "string \<Rightarrow> string" where
  "path_root s =
     (if take 3 s = ''///'' then ''/''
      else if take 2 s = ''//'' then ''//''
      else if take 1 s = ''/'' then ''/''
      else '''')"

definition PurePath :: "string \<Rightarrow> path" where
  "PurePath s =
     Path (path_root s) (filter (\<lambda>p. p \<noteq> '''' \<and> p \<noteq> ''.'') (split_on (CHR ''/'') s))"

text \<open>\<open>p / name\<close>: an absolute right operand replaces the left one.\<close>

definition joinpath :: "path \<Rightarrow> string \<Rightarrow> path" where
  "joinpath p name =
     (let q = PurePath name
      in if root q \<noteq> '''' then q else Path (root p) (parts p @ parts q))"

fun join :: "string \<Rightarrow> string list \<Rightarrow> string" where
  "join sep [] = ''''"
| "join sep [x] = x"
| "join sep (x # y # ys) = x @ sep @ join sep (y # ys)"

definition str_path :: "path \<Rightarrow> string" where
  "str_path p = (if root p = '''' \<and> parts p = [] then ''.'' else root p @ join ''/'' (parts p))"

text \<open>\<open>under d p\<close>: \<open>p\<close> is \<open>d\<close> itself or lies below it.\<close>

definition under :: "path \<Rightarrow> path \<Rightarrow> bool" where
  "under d p = (root p = root d \<and> prefix (parts d) (parts p))"

section \<open>Exceptions, byte strings, results\<close>

text \<open>
  An exception is its class and its message (\<open>str(e)\<close>). \<open>CancelledError\<close> stands for the
  classes that derive from \<open>BaseException\<close> only, which \<open>except Exception\<close> lets through.
\<close>

datatype exn_class =
    TimeoutError | FileNotFoundError | IsADirectoryError | FileExistsError | OSError
  | PermissionError | ProcessLookupError
  | UnicodeDecodeError | UnboundLocalError | CancelledError

datatype exn = Exn (exn_cls: exn_class) (str_exn: string)

definition is_Exception :: "exn \<Rightarrow> bool" where
  "is_Exception e = (exn_cls e \<noteq> CancelledError)"

text \<open>
  What a pipe delivered: \<open>Utf8 s\<close> is the UTF-8 encoding of the text \<open>s\<close>, \<open>Malformed\<close> a
  non-empty byte string that \<open>decode()\<close> rejects.
\<close>

datatype bytes = Utf8 string | Malformed

fun decode :: "bytes \<Rightarrow> exn + string" where
  "decode (Utf8 s) = Inr s"
| "decode Malformed = Inl (Exn UnicodeDecodeError ''invalid start byte'')"

fun truthy :: "bytes \<Rightarrow> bool" where
  "truthy (Utf8 s) = (s \<noteq> [])"
| "truthy Malformed = True"

record ExecutionResult =
  success :: bool
  output_text :: string
  error :: "string option"
  execution_time :: int
  memory_usage :: int

definition mk_result :: "bool \<Rightarrow> string \<Rightarrow> string option \<Rightarrow> ExecutionResult" where
  "mk_result s out err =
     \<lparr>success = s, output_text = out, error = err, execution_time = 0, memory_usage = 0\<rparr>"

datatype pyval = PyNone | PyBool bool | PyStr string | PyInt int | PyList "string list"

definition to_dict :: "ExecutionResult \<Rightarrow> (string \<rightharpoonup> pyval)" where
  "to_dict r =
     [''success'' \<mapsto> PyBool (success r),
      ''output'' \<mapsto> PyStr (output_text r),
      ''error'' \<mapsto> (case error r of None \<Rightarrow> PyNone | Some e \<Rightarrow> PyStr e),
      ''time'' \<mapsto> PyInt (execution_time r),
      ''memory'' \<mapsto> PyInt (memory_usage r)]"

section \<open>The host: file system, processes, and what the operating system answers\<close>

text \<open>\<open>ResourceLimits\<close>. \<open>MAX_TIME\<close> is in seconds.\<close>

definition MAX_MEMORY :: nat where "MAX_MEMORY = 512 * 1024 * 1024"
definition MAX_TIME :: nat where "MAX_TIME = 30"
definition MAX_PROCESSES :: nat where "MAX_PROCESSES = 5"

text \<open>
  A spawn request: \<open>create_subprocess_exec\<close> with program and arguments, or
  \<open>create_subprocess_shell\<close> with the command text. The flag says whether
  \<open>preexec_fn\<close> is \<open>_apply_limits\<close> (the three limits above) or \<open>None\<close>.
\<close>

datatype command =
    SubprocessExec string "string list" bool
  | SubprocessShell string bool

datatype node = File string | Dir

text \<open>
  The state the engine changes: the file system, the spawn requests issued so far (a
  process is known by its position in that list), the processes sent SIGTERM, and the
  sequence of random names \<open>tempfile.mkdtemp\<close> draws from.
\<close>

record world =
  fs :: "path \<rightharpoonup> node"
  spawned :: "command list"
  terminated :: "nat list"
  names :: "string list"

text \<open>
  What the host answers, which the engine does not control. A write succeeds, fails
  leaving nothing, or fails after the file was created with some content. A spawn fails
  or starts a process, which completes after so many milliseconds with an exit code
  and its two pipes, or never completes. An \<open>unlink\<close> of a file may be refused. A
  \<open>terminate()\<close> of a process may be refused as well: asyncio raises
  \<open>ProcessLookupError\<close> when the child has exited by then (its pipes may still be
  held open, so that \<open>communicate()\<close> has not completed).
\<close>

datatype write_outcome = Written | WriteFailed exn | WriteTorn string exn

datatype proc_run = Completes nat int bytes bytes | Hangs

record env =
  platform :: string
  executable :: string
  write_text_outcome :: "path \<Rightarrow> string \<Rightarrow> write_outcome"
  spawn_outcome :: "command \<Rightarrow> (path \<rightharpoonup> node) \<Rightarrow> exn + proc_run"
  unlink_fault :: "path \<Rightarrow> exn option"
  terminate_fault :: "nat \<Rightarrow> exn option"

text \<open>
  The value of a call: \<open>None\<close> when it never returns, \<open>Some (Inl e)\<close> when it raises
  \<open>e\<close>, \<open>Some (Inr v)\<close> when it returns \<open>v\<close>.
\<close>

type_synonym 'a outcome = "(exn + 'a) option"

definition write_text :: "env \<Rightarrow> path \<Rightarrow> string \<Rightarrow> world \<Rightarrow> exn option \<times> world" where
  "write_text ev p content w =
     (if fs w p = Some Dir then (Some (Exn IsADirectoryError (str_path p)), w)
      else (case write_text_outcome ev p content of
              Written \<Rightarrow> (None, w\<lparr>fs := (fs w)(p \<mapsto> File content)\<rparr>)
            | WriteFailed e \<Rightarrow> (Some e, w)
            | WriteTorn part e \<Rightarrow> (Some e, w\<lparr>fs := (fs w)(p \<mapsto> File part)\<rparr>)))"

definition exists :: "path \<Rightarrow> world \<Rightarrow> bool" where
  "exists p w = (fs w p \<noteq> None)"

definition unlink :: "env \<Rightarrow> path \<Rightarrow> world \<Rightarrow> exn option \<times> world" where
  "unlink ev p w =
     (case fs w p of
        None \<Rightarrow> (Some (Exn FileNotFoundError (str_path p)), w)
      | Some Dir \<Rightarrow> (Some (Exn IsADirectoryError (str_path p)), w)
      | Some (File c) \<Rightarrow>
          (case unlink_fault ev p of
             Some e \<Rightarrow> (Some e, w)
           | None \<Rightarrow> (None, w\<lparr>fs := (fs w)(p := None)\<rparr>)))"

text \<open>
  A spawn request is recorded whether or not the host can start the process; the
  process is named by the position of its request.
\<close>

definition create_subprocess :: "env \<Rightarrow> command \<Rightarrow> world \<Rightarrow> (exn + nat \<times> proc_run) \<times> world" where
  "create_subprocess ev cmd w =
     (let w' = w\<lparr>spawned := spawned w @ [cmd]\<rparr>
      in (case spawn_outcome ev cmd (fs w) of
            Inl e \<Rightarrow> (Inl e, w')
          | Inr run \<Rightarrow> (Inr (length (spawned w), run), w')))"

text \<open>
  The expression all three runners build from a completed process:
  \<open>ExecutionResult(success=process.returncode == 0, output=stdout.decode(),
  error=stderr.decode() if stderr else None)\<close>; either \<open>decode\<close> may raise.
\<close>

definition result_of_exit :: "int \<Rightarrow> bytes \<Rightarrow> bytes \<Rightarrow> exn + ExecutionResult" where
  "result_of_exit returncode out err =
     (case decode out of
        Inl e \<Rightarrow> Inl e
      | Inr o_text \<Rightarrow>
          (if truthy err
           then (case decode err of
                   Inl e \<Rightarrow> Inl e
                 | Inr e_text \<Rightarrow> Inr (mk_result (returncode = 0) o_text (Some e_text)))
           else Inr (mk_result (returncode = 0) o_text None)))"

section \<open>\<open>CodeExecutor\<close>\<close>

record CodeExecutor =
  workspace_dir :: string

definition limits_applied :: "env \<Rightarrow> bool" where
  "limits_applied ev = (platform ev \<noteq> ''win32'')"

subsection \<open>The shell runner\<close>

definition allowed_commands :: "string set" where
  "allowed_commands = {''echo'', ''ls'', ''pwd'', ''whoami'', ''date''}"

definition unsafe :: "string \<Rightarrow> bool" where
  "unsafe code = list_ex (\<lambda>cmd. cmd \<notin> allowed_commands) (split code)"

definition execute_shell :: "CodeExecutor \<Rightarrow> string \<Rightarrow> env \<Rightarrow> world \<Rightarrow> ExecutionResult outcome \<times> world" where
  "execute_shell self code ev w =
     (if unsafe code
      then (Some (Inr (mk_result False '''' (Some ''Unsafe command detected''))), w)
      else (case create_subprocess ev (SubprocessShell code (limits_applied ev)) w of
              (Inl e, w1) \<Rightarrow> (Some (Inl e), w1)
            | (Inr (pid, Hangs), w1) \<Rightarrow> (None, w1)
            | (Inr (pid, Completes ms returncode out err), w1) \<Rightarrow>
                (Some (result_of_exit returncode out err), w1)))"

subsection \<open>The Python runner\<close>

text \<open>
  \<open>finally: if temp_file.exists(): temp_file.unlink()\<close>. It runs once the \<open>try\<close>
  statement has a value or an exception, and not while that statement still waits.
  An exception of \<open>unlink\<close> replaces what the \<open>try\<close> statement produced.
\<close>

definition finally_unlink :: "env \<Rightarrow> path \<Rightarrow> 'a outcome \<times> world \<Rightarrow> 'a outcome \<times> world" where
  "finally_unlink ev temp_file rw =
     (case rw of
        (None, w) \<Rightarrow> (None, w)
      | (Some r, w) \<Rightarrow>
          (if exists temp_file w
           then (case unlink ev temp_file w of
                   (Some e, w') \<Rightarrow> (Some (Inl e), w')
                 | (None, w') \<Rightarrow> (Some r, w'))
           else (Some r, w)))"

text \<open>
  \<open>except asyncio.TimeoutError: process.terminate(); return ...\<close>. The handler reads the
  local \<open>process\<close>, which is unbound when the exception came before the spawn returned.
  What \<open>process.terminate()\<close> raises leaves the handler in place of the result.
\<close>

definition python_except :: "env \<Rightarrow> nat option \<Rightarrow> exn \<Rightarrow> world \<Rightarrow> ExecutionResult outcome \<times> world" where
  "python_except ev process e w =
     (if exn_cls e = TimeoutError
      then (case process of
              None \<Rightarrow>
                (Some (Inl (Exn UnboundLocalError
                   ''cannot access local variable process where it is not associated with a value'')), w)
            | Some pid \<Rightarrow>
                (case terminate_fault ev pid of
                   Some e' \<Rightarrow> (Some (Inl e'), w)
                 | None \<Rightarrow>
                     (Some (Inr (mk_result False '''' (Some ''Execution timeout''))),
                      w\<lparr>terminated := terminated w @ [pid]\<rparr>)))
      else (Some (Inl e), w))"

text \<open>
  The \<open>try\<close> block with its handler. \<open>asyncio.wait_for(process.communicate(),
  timeout=ResourceLimits.MAX_TIME)\<close> raises \<open>TimeoutError\<close> unless the process completes
  before the deadline.
\<close>

definition python_try :: "path \<Rightarrow> string \<Rightarrow> env \<Rightarrow> world \<Rightarrow> ExecutionResult outcome \<times> world" where
  "python_try temp_file code ev w =
     (case write_text ev temp_file code w of
        (Some e, w1) \<Rightarrow> python_except ev None e w1
      | (None, w1) \<Rightarrow>
          (case create_subprocess ev
                  (SubprocessExec (executable ev) [str_path temp_file] (limits_applied ev)) w1 of
             (Inl e, w2) \<Rightarrow> python_except ev None e w2
           | (Inr (pid, Hangs), w2) \<Rightarrow> python_except ev (Some pid) (Exn TimeoutError '''') w2
           | (Inr (pid, Completes ms returncode out err), w2) \<Rightarrow>
               (if ms < MAX_TIME * 1000
                then (case result_of_exit returncode out err of
                        Inl e \<Rightarrow> python_except ev (Some pid) e w2
                      | Inr r \<Rightarrow> (Some (Inr r), w2))
                else python_except ev (Some pid) (Exn TimeoutError '''') w2)))"

definition python_temp_file :: "CodeExecutor \<Rightarrow> path" where
  "python_temp_file self = joinpath (PurePath (workspace_dir self)) ''script.py''"

definition execute_python :: "CodeExecutor \<Rightarrow> string \<Rightarrow> env \<Rightarrow> world \<Rightarrow> ExecutionResult outcome \<times> world" where
  "execute_python self code ev w =
     (let temp_file = python_temp_file self
      in finally_unlink ev temp_file (python_try temp_file code ev w))"

subsection \<open>The JavaScript runner\<close>

definition javascript_except :: "exn \<Rightarrow> world \<Rightarrow> ExecutionResult outcome \<times> world" where
  "javascript_except e w =
     (if exn_cls e = FileNotFoundError
      then (Some (Inr (mk_result False '''' (Some ''Node.js is not installed''))), w)
      else (Some (Inl e), w))"

text \<open>Here \<open>await process.communicate()\<close> has no deadline.\<close>

definition javascript_try :: "path \<Rightarrow> string \<Rightarrow> env \<Rightarrow> world \<Rightarrow> ExecutionResult outcome \<times> world" where
  "javascript_try temp_file code ev w =
     (case write_text ev temp_file code w of
        (Some e, w1) \<Rightarrow> javascript_except e w1
      | (None, w1) \<Rightarrow>
          (case create_subprocess ev
                  (SubprocessExec ''node'' [str_path temp_file] (limits_applied ev)) w1 of
             (Inl e, w2) \<Rightarrow> javascript_except e w2
           | (Inr (pid, Hangs), w2) \<Rightarrow> (None, w2)
           | (Inr (pid, Completes ms returncode out err), w2) \<Rightarrow>
               (case result_of_exit returncode out err of
                  Inl e \<Rightarrow> javascript_except e w2
                | Inr r \<Rightarrow> (Some (Inr r), w2))))"

definition javascript_temp_file :: "CodeExecutor \<Rightarrow> path" where
  "javascript_temp_file self = joinpath (PurePath (workspace_dir self)) ''script.js''"

definition execute_javascript :: "CodeExecutor \<Rightarrow> string \<Rightarrow> env \<Rightarrow> world \<Rightarrow> ExecutionResult outcome \<times> world" where
  "execute_javascript self code ev w =
     (let temp_file = javascript_temp_file self
      in finally_unlink ev temp_file (javascript_try temp_file code ev w))"

subsection \<open>Dispatch\<close>

type_synonym runner = "CodeExecutor \<Rightarrow> string \<Rightarrow> env \<Rightarrow> world \<Rightarrow> ExecutionResult outcome \<times> world"

definition supported_languages :: "string \<rightharpoonup> runner" where
  "supported_languages =
     [''python'' \<mapsto> execute_python,
      ''javascript'' \<mapsto> execute_javascript,
      ''shell'' \<mapsto> execute_shell]"

text \<open>
  \<open>CodeExecutor.execute_code\<close>. \<open>except Exception\<close> turns what a runner raises into a
  failed result (the call to the logger is left out).
\<close>

definition execute_code :: "CodeExecutor \<Rightarrow> string \<Rightarrow> string \<Rightarrow> env \<Rightarrow> world \<Rightarrow> ExecutionResult outcome \<times> world" where
  "execute_code self code language ev w =
     (case supported_languages (lower language) of
        None \<Rightarrow>
          (Some (Inr (mk_result False '''' (Some (''Unsupported language: '' @ language)))), w)
      | Some executor \<Rightarrow>
          (case executor self code ev w of
             (Some (Inl e), w') \<Rightarrow>
               (if is_Exception e
                then (Some (Inr (mk_result False '''' (Some (str_exn e)))), w')
                else (Some (Inl e), w'))
           | (Some (Inr r), w') \<Rightarrow> (Some (Inr r), w')
           | (None, w') \<Rightarrow> (None, w')))"

section \<open>\<open>DependencyManager\<close>\<close>

definition package_managers :: "string \<rightharpoonup> string \<times> string" where
  "package_managers =
     [''python'' \<mapsto> (''pip'', ''install''), ''javascript'' \<mapsto> (''npm'', ''install'')]"

definition install_except :: "exn \<Rightarrow> world \<Rightarrow> (string \<rightharpoonup> pyval) outcome \<times> world" where
  "install_except e w =
     (if is_Exception e
      then (Some (Inr [''success'' \<mapsto> PyBool False, ''output'' \<mapsto> PyStr '''',
                       ''error'' \<mapsto> PyStr (str_exn e), ''installed'' \<mapsto> PyList []]), w)
      else (Some (Inl e), w))"

definition install_result :: "string list \<Rightarrow> int \<Rightarrow> bytes \<Rightarrow> bytes \<Rightarrow> exn + (string \<rightharpoonup> pyval)" where
  "install_result packages returncode out err =
     (case decode out of
        Inl e \<Rightarrow> Inl e
      | Inr o_text \<Rightarrow>
          (case (if truthy err then map_sum id PyStr (decode err) else Inr PyNone) of
             Inl e \<Rightarrow> Inl e
           | Inr e_val \<Rightarrow>
               Inr [''success'' \<mapsto> PyBool (returncode = 0),
                    ''output'' \<mapsto> PyStr o_text,
                    ''error'' \<mapsto> e_val,
                    ''installed'' \<mapsto> PyList (if returncode = 0 then packages else [])]))"

definition install_dependencies :: "string list \<Rightarrow> string \<Rightarrow> env \<Rightarrow> world \<Rightarrow> (string \<rightharpoonup> pyval) outcome \<times> world" where
  "install_dependencies packages language ev w =
     (if packages = []
      then (Some (Inr [''success'' \<mapsto> PyBool True,
                       ''output'' \<mapsto> PyStr ''No packages to install'']), w)
      else (case package_managers language of
              None \<Rightarrow>
                (Some (Inr [''success'' \<mapsto> PyBool False,
                            ''output'' \<mapsto> PyStr (''Unsupported language: '' @ language)]), w)
            | Some (package_manager, install_cmd) \<Rightarrow>
                (case create_subprocess ev
                        (SubprocessExec package_manager (install_cmd # packages) False) w of
                   (Inl e, w1) \<Rightarrow> install_except e w1
                 | (Inr (pid, Hangs), w1) \<Rightarrow> (None, w1)
                 | (Inr (pid, Completes ms returncode out err), w1) \<Rightarrow>
                     (case install_result packages returncode out err of
                        Inl e \<Rightarrow> install_except e w1
                      | Inr d \<Rightarrow> (Some (Inr d), w1)))))"

text \<open>
  How the dispatcher (\<open>AIAgent._handle_install\<close>) reads the packages out of an install
  result: \<open>result.get("installed", [])\<close>.
\<close>

definition get_installed :: "(string \<rightharpoonup> pyval) \<Rightarrow> pyval" where
  "get_installed result = (case result ''installed'' of None \<Rightarrow> PyList [] | Some v \<Rightarrow> v)"

section \<open>Workspace directories and the \<open>Executor\<close> facade\<close>

text \<open>
  \<open>tempfile.mkdtemp(prefix=...)\<close> tries the random names in turn, skips those that exist
  and creates the first free one; with no name left it raises \<open>FileExistsError\<close>.
\<close>

definition tempdir :: string where
  "tempdir = ''/tmp''"

fun mkdtemp_from :: "string list \<Rightarrow> string \<Rightarrow> (path \<rightharpoonup> node) \<Rightarrow> (string \<times> string list) option" where
  "mkdtemp_from [] pfx files = None"
| "mkdtemp_from (n # ns) pfx files =
     (let d = tempdir @ ''/'' @ pfx @ n
      in if files (PurePath d) \<noteq> None then mkdtemp_from ns pfx files else Some (d, ns))"

definition mkdtemp :: "string \<Rightarrow> world \<Rightarrow> (exn + string) \<times> world" where
  "mkdtemp pfx w =
     (case mkdtemp_from (names w) pfx (fs w) of
        None \<Rightarrow>
          (Inl (Exn FileExistsError ''No usable temporary directory name found''),
           w\<lparr>names := []\<rparr>)
      | Some (d, rest) \<Rightarrow> (Inr d, w\<lparr>fs := (fs w)(PurePath d \<mapsto> Dir), names := rest\<rparr>))"

text \<open>
  \<open>workspace_dir or tempfile.mkdtemp(prefix="ai_agent_")\<close>: \<open>None\<close> and the empty string
  are both false.
\<close>

definition workspace_or_mkdtemp :: "string option \<Rightarrow> world \<Rightarrow> (exn + string) \<times> world" where
  "workspace_or_mkdtemp dir w =
     (case dir of
        None \<Rightarrow> mkdtemp ''ai_agent_'' w
      | Some d \<Rightarrow> (if d = [] then mkdtemp ''ai_agent_'' w else (Inr d, w)))"

definition CodeExecutor_init :: "string option \<Rightarrow> world \<Rightarrow> (exn + CodeExecutor) \<times> world" where
  "CodeExecutor_init dir w =
     (case workspace_or_mkdtemp dir w of
        (Inl e, w1) \<Rightarrow> (Inl e, w1)
      | (Inr d, w1) \<Rightarrow> (Inr \<lparr>workspace_dir = d\<rparr>, w1))"

text \<open>
  The facade keeps its \<open>CodeExecutor\<close> and a \<open>workspace_dir\<close> of its own (the
  \<open>DependencyManager\<close> holds nothing but the constant table above).
\<close>

record Executor =
  code_executor :: CodeExecutor
  executor_workspace_dir :: string

definition Executor_init :: "string option \<Rightarrow> world \<Rightarrow> (exn + Executor) \<times> world" where
  "Executor_init dir w =
     (case CodeExecutor_init dir w of
        (Inl e, w1) \<Rightarrow> (Inl e, w1)
      | (Inr ce, w1) \<Rightarrow>
          (case workspace_or_mkdtemp dir w1 of
             (Inl e, w2) \<Rightarrow> (Inl e, w2)
           | (Inr d, w2) \<Rightarrow> (Inr \<lparr>code_executor = ce, executor_workspace_dir = d\<rparr>, w2)))"

text \<open>
  \<open>shutil.rmtree(d, ignore_errors=True)\<close>: a directory goes with everything below it;
  on anything else the error is swallowed and nothing changes.
\<close>

definition rmtree :: "path \<Rightarrow> world \<Rightarrow> world" where
  "rmtree d w =
     (case fs w d of
        Some Dir \<Rightarrow> w\<lparr>fs := (\<lambda>p. if under d p then None else fs w p)\<rparr>
      | _ \<Rightarrow> w)"

definition cleanup :: "Executor \<Rightarrow> world \<Rightarrow> world" where
  "cleanup self w =
     (if exists (PurePath (executor_workspace_dir self)) w
      then rmtree (PurePath (executor_workspace_dir self)) w
      else w)"

definition Executor_execute_code :: "Executor \<Rightarrow> string \<Rightarrow> string \<Rightarrow> env \<Rightarrow> world \<Rightarrow> (string \<rightharpoonup> pyval) outcome \<times> world" where
  "Executor_execute_code self code language ev w =
     (case execute_code (code_executor self) code language ev w of
        (Some (Inr r), w') \<Rightarrow> (Some (Inr (to_dict r)), w')
      | (Some (Inl e), w') \<Rightarrow> (Some (Inl e), w')
      | (None, w') \<Rightarrow> (None, w'))"

definition Executor_install_dependencies :: "Executor \<Rightarrow> string list \<Rightarrow> string \<Rightarrow> env \<Rightarrow> world \<Rightarrow> (string \<rightharpoonup> pyval) outcome \<times> world" where
  "Executor_install_dependencies self packages language ev w =
     install_dependencies packages language ev w"

section \<open>Example hosts\<close>

text \<open>
  Concrete hosts and a concrete engine, on which the theorems below are evaluated. On
  \<open>host_ok\<close> every write succeeds and every process prints \<open>hi\<close> and exits 0 after
  40 ms; \<open>host_slow\<close> differs in that a process needs 60 s; on \<open>host_hang\<close> a process
  never completes; on \<open>host_exit1\<close> it exits 1 and prints nothing at all; on
  \<open>host_torn\<close> a write fails after it created the file; on \<open>host_no_runtime\<close> the program
  to start is not found; on \<open>host_unlink_denied\<close> the directory does not allow the
  removal of a file; on \<open>host_reaped\<close> the process never closes its pipes, and its
  child has exited when the deadline expires.
\<close>

definition world0 :: world where
  "world0 = \<lparr>fs = Map.empty, spawned = [], terminated = [],
             names = [''k3x9w2ab'', ''p0q7m4zz'']\<rparr>"

definition host_ok :: env where
  "host_ok = \<lparr>platform = ''linux'', executable = ''/usr/bin/python3'',
     write_text_outcome = (\<lambda>p c. Written),
     spawn_outcome = (\<lambda>cmd files. Inr (Completes 40 0 (Utf8 ''hi'') (Utf8 ''''))),
     unlink_fault = (\<lambda>p. None),
     terminate_fault = (\<lambda>pid. None)\<rparr>"

definition host_slow :: env where
  "host_slow = host_ok\<lparr>spawn_outcome :=
     (\<lambda>cmd files. Inr (Completes 60000 0 (Utf8 ''done'') (Utf8 '''')))\<rparr>"

definition host_hang :: env where
  "host_hang = host_ok\<lparr>spawn_outcome := (\<lambda>cmd files. Inr Hangs)\<rparr>"


definition host_torn :: env where
  "host_torn = host_ok\<lparr>write_text_outcome :=
     (\<lambda>p c. WriteTorn (take 3 c) (Exn OSError ''No space left on device''))\<rparr>"


definition host_unlink_denied :: env where
  "host_unlink_denied = host_ok\<lparr>unlink_fault :=
     (\<lambda>p. Some (Exn PermissionError ''Permission denied''))\<rparr>"


definition engine0 :: Executor where
  "engine0 = \<lparr>code_executor = \<lparr>workspace_dir = ''/tmp/ws''\<rparr>,
              executor_workspace_dir = ''/tmp/ws''\<rparr>"

section \<open>Basic facts\<close>

lemma lower_shell: "lower ''shell'' = ''shell''"
  by (simp add: lower_def char_lower_def)

lemma lower_python: "lower ''python'' = ''python''"
  by (simp add: lower_def char_lower_def)

lemma lower_javascript: "lower ''javascript'' = ''javascript''"
  by (simp add: lower_def char_lower_def)

lemma dom_supported_languages:
  "dom supported_languages = {''python'', ''javascript'', ''shell''}"
  by (auto simp: supported_languages_def split: if_splits)

lemma split_acc_Nil_iff:
  "split_acc cur s = [] \<longleftrightarrow> cur = [] \<and> (\<forall>c\<in>set s. isspace c)"
  by (induction s arbitrary: cur) auto

lemma split_Nil_iff: "split s = [] \<longleftrightarrow> (\<forall>c\<in>set s. isspace c)"
  by (simp add: split_def split_acc_Nil_iff)

lemma unsafe_iff: "unsafe code \<longleftrightarrow> (\<exists>t\<in>set (split code). t \<notin> allowed_commands)"
  by (simp add: unsafe_def list_ex_iff)

section \<open>Facts about the runners\<close>




lemma finally_unlink_file_or_fault:
  assumes "fst (finally_unlink ev p rw) \<noteq> None"
  shows "(\<forall>c. fs (snd (finally_unlink ev p rw)) p \<noteq> Some (File c))
       \<or> (\<exists>e. unlink_fault ev p = Some e \<and> fst (finally_unlink ev p rw) = Some (Inl e))"
  using assms
  by (cases rw) (auto simp: finally_unlink_def exists_def unlink_def
        split: option.splits node.splits prod.splits if_splits)










lemma execute_python_returns: "fst (execute_python self code ev w) \<noteq> None"
  by (auto simp: execute_python_def Let_def finally_unlink_def python_try_def python_except_def
        split: option.splits prod.splits sum.splits proc_run.splits if_splits)

lemma execute_code_unsupported:
  assumes "lower language \<notin> dom supported_languages"
  shows "execute_code self code language ev w =
     (Some (Inr (mk_result False '''' (Some (''Unsupported language: '' @ language)))), w)"
proof -
  from assms have "supported_languages (lower language) = None"
    by (simp add: domIff)
  then show ?thesis
    by (simp add: execute_code_def)
qed

lemma execute_code_no_Exception:
  "fst (execute_code self code language ev w) = Some (Inl e) \<Longrightarrow> \<not> is_Exception e"
  by (auto simp: execute_code_def split: option.splits prod.splits sum.splits if_splits)

text \<open>The temporary files of the example engine, and two runs evaluated in full.\<close>

lemma python_temp_file_engine0:
  "python_temp_file (code_executor engine0) = Path ''/'' [''tmp'', ''ws'', ''script.py'']"
  by (simp add: python_temp_file_def engine0_def joinpath_def PurePath_def path_root_def)

lemma javascript_temp_file_engine0:
  "javascript_temp_file (code_executor engine0) = Path ''/'' [''tmp'', ''ws'', ''script.js'']"
  by (simp add: javascript_temp_file_def engine0_def joinpath_def PurePath_def path_root_def)

lemma str_path_script_py: "str_path (Path ''/'' [''tmp'', ''ws'', ''script.py'']) = ''/tmp/ws/script.py''"
  by (simp add: str_path_def)

lemma str_path_script_js: "str_path (Path ''/'' [''tmp'', ''ws'', ''script.js'']) = ''/tmp/ws/script.js''"
  by (simp add: str_path_def)

section \<open>The shell allow-list\<close>

text \<open>
  Claim C2. A shell command with at least one whitespace-separated token outside the
  allow-list \<open>{echo, ls, pwd, whoami, date}\<close> (a flag or an argument of an allowed
  command counts) is rejected: \<open>execute(cmd, "shell")\<close> returns \<open>success = False\<close>
  with \<open>error = "Unsafe command detected"\<close>, and the world is the one before the
  call, so no process was spawned. Stated for \<open>CodeExecutor.execute_code\<close> and for the
  result map of the facade.
\<close>

theorem shell_rejects_unlisted_token:
  assumes "t \<in> set (split cmd)" and "t \<notin> allowed_commands"
  shows "execute_code (code_executor ex) cmd ''shell'' ev w =
           (Some (Inr (mk_result False '''' (Some ''Unsafe command detected''))), w)
       \<and> Executor_execute_code ex cmd ''shell'' ev w =
           (Some (Inr (to_dict (mk_result False '''' (Some ''Unsafe command detected'')))), w)"
proof -
  from assms have u: "unsafe cmd"
    by (auto simp: unsafe_iff)
  have d: "supported_languages (lower ''shell'') = Some execute_shell"
    by (simp add: lower_shell supported_languages_def)
  have "execute_code (code_executor ex) cmd ''shell'' ev w =
           (Some (Inr (mk_result False '''' (Some ''Unsafe command detected''))), w)"
    using u by (simp add: execute_code_def d execute_shell_def)
  then show ?thesis
    by (simp add: Executor_execute_code_def)
qed

theorem shell_rejects_unlisted_token_witness:
  "''ls;'' \<in> set (split ''ls; rm -rf /'') \<and> ''ls;'' \<notin> allowed_commands
   \<and> Executor_execute_code engine0 ''ls; rm -rf /'' ''shell'' host_ok world0 =
      (Some (Inr (to_dict (mk_result False '''' (Some ''Unsafe command detected'')))), world0)"
proof -
  have a: "''ls;'' \<in> set (split ''ls; rm -rf /'')"
    by (simp add: split_def isspace_def)
  have b: "''ls;'' \<notin> allowed_commands"
    by (simp add: allowed_commands_def)
  from shell_rejects_unlisted_token [OF a b] a b show ?thesis
    by simp
qed

text \<open>
  Claim C10. A shell command whose tokenization is empty (the empty string, or
  whitespace only, see \<open>split_Nil_iff\<close>) passes the allow-list check: the runner
  issues the spawn of a shell with the raw command text, and what it returns is what
  that process yields, not the rejection.
\<close>

theorem shell_empty_tokenization_spawns:
  assumes "split code = []"
  shows "\<not> unsafe code
       \<and> spawned (snd (execute_shell self code ev w)) =
           spawned w @ [SubprocessShell code (limits_applied ev)]
       \<and> fst (execute_shell self code ev w) =
           (case spawn_outcome ev (SubprocessShell code (limits_applied ev)) (fs w) of
              Inl e \<Rightarrow> Some (Inl e)
            | Inr Hangs \<Rightarrow> None
            | Inr (Completes ms returncode out err) \<Rightarrow> Some (result_of_exit returncode out err))"
  using assms
  by (simp add: unsafe_def execute_shell_def create_subprocess_def Let_def
           split: sum.splits proc_run.splits)

theorem shell_empty_tokenization_spawns_witness:
  "split ''  '' = [] \<and> \<not> unsafe ''  ''
   \<and> spawned (snd (execute_shell (code_executor engine0) ''  '' host_ok world0)) =
       [SubprocessShell ''  '' True]
   \<and> fst (execute_shell (code_executor engine0) ''  '' host_ok world0) =
       Some (Inr (mk_result True ''hi'' None))"
proof -
  have a: "split ''  '' = []"
    by (simp add: split_def isspace_def)
  from shell_empty_tokenization_spawns [OF a, of "code_executor engine0" host_ok world0] a
  show ?thesis
    by (simp add: host_ok_def world0_def limits_applied_def result_of_exit_def)
qed

section \<open>Unsupported languages and raised exceptions\<close>

text \<open>
  Claim C4. A language outside the supported set (its lower-cased name is not a key of
  \<open>supported_languages\<close>) is rejected: the result has \<open>success = False\<close> and the
  error \<open>Unsupported language: <language>\<close>, and the world is unchanged, so nothing
  was spawned. Moreover no call of \<open>execute_code\<close>, in any language and on any host,
  raises an \<open>Exception\<close> to its caller: a timeout, a missing runtime and every other
  \<open>Exception\<close> of a runner comes back as a failed result.
\<close>

theorem unsupported_language_rejected:
  assumes "lower language \<notin> dom supported_languages"
  shows "execute_code (code_executor ex) code language ev w =
           (Some (Inr (mk_result False '''' (Some (''Unsupported language: '' @ language)))), w)
       \<and> Executor_execute_code ex code language ev w =
           (Some (Inr (to_dict (mk_result False ''''
                                  (Some (''Unsupported language: '' @ language))))), w)
       \<and> (\<forall>c l h v e. fst (execute_code (code_executor ex) c l h v) = Some (Inl e)
              \<longrightarrow> \<not> is_Exception e)
       \<and> (\<forall>c l h v e. fst (Executor_execute_code ex c l h v) = Some (Inl e)
              \<longrightarrow> \<not> is_Exception e)"
proof -
  have 1: "execute_code (code_executor ex) code language ev w =
           (Some (Inr (mk_result False '''' (Some (''Unsupported language: '' @ language)))), w)"
    using assms by (rule execute_code_unsupported)
  have 2: "\<not> is_Exception e"
    if "fst (execute_code (code_executor ex) c l h v) = Some (Inl e)" for c l h v e
    using that by (rule execute_code_no_Exception)
  have 3: "\<not> is_Exception e"
    if a: "fst (Executor_execute_code ex c l h v) = Some (Inl e)" for c l h v e
  proof -
    from a have "fst (execute_code (code_executor ex) c l h v) = Some (Inl e)"
      by (auto simp: Executor_execute_code_def split: prod.splits option.splits sum.splits)
    then show ?thesis
      by (rule execute_code_no_Exception)
  qed
  from 1 2 3 show ?thesis
    by (simp add: Executor_execute_code_def)
qed

theorem unsupported_language_rejected_witness:
  "lower ''Ruby'' \<notin> dom supported_languages
   \<and> Executor_execute_code engine0 ''puts 1'' ''Ruby'' host_ok world0 =
      (Some (Inr [''success'' \<mapsto> PyBool False, ''output'' \<mapsto> PyStr '''',
                  ''error'' \<mapsto> PyStr ''Unsupported language: Ruby'',
                  ''time'' \<mapsto> PyInt 0, ''memory'' \<mapsto> PyInt 0]), world0)"
proof -
  have a: "lower ''Ruby'' \<notin> dom supported_languages"
    by (simp add: dom_supported_languages lower_def char_lower_def char_of_def)
  from unsupported_language_rejected [OF a, of engine0 "''puts 1''" host_ok world0] a
  show ?thesis
    by (simp add: to_dict_def mk_result_def)
qed

section \<open>Removal of the temporary file\<close>

text \<open>
  Claim C5, as stated, has the file removed on every exit path. The \<open>unlink\<close> in the
  \<open>finally\<close> clause is itself unguarded: on \<open>host_unlink_denied\<close>, where the removal
  is refused, the Python runner ends by raising \<open>PermissionError\<close> and the file it
  wrote is still there.
\<close>

theorem refused_unlink_leaves_temp_file:
  "fst (execute_python (code_executor engine0) ''print(1)'' host_unlink_denied world0)
     = Some (Inl (Exn PermissionError ''Permission denied''))
   \<and> fs (snd (execute_python (code_executor engine0) ''print(1)'' host_unlink_denied world0))
        (python_temp_file (code_executor engine0)) = Some (File ''print(1)'')"
  by (simp add: execute_python_def python_temp_file_engine0 python_try_def write_text_def
      host_unlink_denied_def host_ok_def world0_def create_subprocess_def limits_applied_def
      str_path_script_py MAX_TIME_def result_of_exit_def finally_unlink_def exists_def
      unlink_def)

text \<open>
  Claim C5, amended. Whenever the Python or the JavaScript runner returns or raises
  (the Python runner always does), whether the \<open>try\<close> statement ended normally, by
  the timeout, or by an exception of the write, of the spawn, of the decoding or of
  \<open>terminate\<close>: either no file is left at the path the runner writes its source to, or
  the host refused the \<open>unlink\<close> of that path and the runner raises the exception of
  that \<open>unlink\<close>.
\<close>

theorem temp_file_removed_unless_unlink_fails:
  "((\<forall>c. fs (snd (execute_python self code ev w)) (python_temp_file self) \<noteq> Some (File c))
     \<or> (\<exists>e. unlink_fault ev (python_temp_file self) = Some e
            \<and> fst (execute_python self code ev w) = Some (Inl e)))
 \<and> (fst (execute_javascript self code ev w) \<noteq> None \<longrightarrow>
       (\<forall>c. fs (snd (execute_javascript self code ev w)) (javascript_temp_file self)
               \<noteq> Some (File c))
     \<or> (\<exists>e. unlink_fault ev (javascript_temp_file self) = Some e
            \<and> fst (execute_javascript self code ev w) = Some (Inl e)))"
proof (intro conjI impI)
  have "fst (finally_unlink ev (python_temp_file self)
               (python_try (python_temp_file self) code ev w)) \<noteq> None"
    using execute_python_returns [of self code ev w]
    by (simp add: execute_python_def Let_def)
  from finally_unlink_file_or_fault [OF this]
  show "(\<forall>c. fs (snd (execute_python self code ev w)) (python_temp_file self) \<noteq> Some (File c))
     \<or> (\<exists>e. unlink_fault ev (python_temp_file self) = Some e
            \<and> fst (execute_python self code ev w) = Some (Inl e))"
    by (simp add: execute_python_def Let_def)
next
  assume "fst (execute_javascript self code ev w) \<noteq> None"
  then have "fst (finally_unlink ev (javascript_temp_file self)
               (javascript_try (javascript_temp_file self) code ev w)) \<noteq> None"
    by (simp add: execute_javascript_def Let_def)
  from finally_unlink_file_or_fault [OF this]
  show "(\<forall>c. fs (snd (execute_javascript self code ev w)) (javascript_temp_file self)
               \<noteq> Some (File c))
     \<or> (\<exists>e. unlink_fault ev (javascript_temp_file self) = Some e
            \<and> fst (execute_javascript self code ev w) = Some (Inl e))"
    by (simp add: execute_javascript_def Let_def)
qed

text \<open>
  On \<open>host_torn\<close> the write creates the file and then fails: both runners raise the
  exception of the write, the \<open>unlink\<close> is carried out, and the torn file is gone.
\<close>

theorem temp_file_removed_unless_unlink_fails_witness:
  "unlink_fault host_torn (python_temp_file (code_executor engine0)) = None
   \<and> fst (execute_python (code_executor engine0) ''print(1)'' host_torn world0)
       = Some (Inl (Exn OSError ''No space left on device''))
   \<and> fs (snd (execute_python (code_executor engine0) ''print(1)'' host_torn world0))
        (python_temp_file (code_executor engine0)) = None
   \<and> unlink_fault host_torn (javascript_temp_file (code_executor engine0)) = None
   \<and> fst (execute_javascript (code_executor engine0) ''print(1)'' host_torn world0)
       = Some (Inl (Exn OSError ''No space left on device''))
   \<and> fs (snd (execute_javascript (code_executor engine0) ''print(1)'' host_torn world0))
        (javascript_temp_file (code_executor engine0)) = None"
  using temp_file_removed_unless_unlink_fails
          [of "code_executor engine0" "''print(1)''" host_torn world0]
  by (simp add: execute_python_def execute_javascript_def python_temp_file_engine0
        javascript_temp_file_engine0 python_try_def javascript_try_def write_text_def
        python_except_def javascript_except_def host_torn_def host_ok_def world0_def
        finally_unlink_def exists_def unlink_def)

section \<open>What a result says about the process\<close>




section \<open>The deadline of the runners\<close>

text \<open>
  Claim C3 asks every runner to wait with a deadline of \<open>MAX_TIME\<close> seconds and to
  answer \<open>Execution timeout\<close> when it expires. The JavaScript runner waits without a
  deadline. On \<open>host_slow\<close>, where a process needs 60 s, it returns that process's
  result, \<open>success = True\<close>, and sends no signal, while the Python runner on the same
  host answers \<open>Execution timeout\<close> and terminates its process; on \<open>host_hang\<close> the
  JavaScript runner never returns.
\<close>

theorem javascript_runner_has_no_deadline:
  "fst (execute_code (code_executor engine0) ''setTimeout(() => {}, 60000)'' ''javascript''
          host_slow world0) = Some (Inr (mk_result True ''done'' None))
   \<and> terminated (snd (execute_code (code_executor engine0) ''setTimeout(() => {}, 60000)''
          ''javascript'' host_slow world0)) = []
   \<and> fst (execute_code (code_executor engine0) ''setInterval(() => {}, 1000)'' ''javascript''
          host_hang world0) = None
   \<and> fst (execute_code (code_executor engine0) ''import time; time.sleep(60)'' ''python''
          host_slow world0) = Some (Inr (mk_result False '''' (Some ''Execution timeout'')))
   \<and> terminated (snd (execute_code (code_executor engine0) ''import time; time.sleep(60)''
          ''python'' host_slow world0)) = [0]"
proof -
  have js: "supported_languages (lower ''javascript'') = Some execute_javascript"
    by (simp add: lower_javascript supported_languages_def)
  have py: "supported_languages (lower ''python'') = Some execute_python"
    by (simp add: lower_python supported_languages_def)
  have 1: "execute_javascript (code_executor engine0) ''setTimeout(() => {}, 60000)''
             host_slow world0 =
           (Some (Inr (mk_result True ''done'' None)),
            world0\<lparr>spawned := [SubprocessExec ''node'' [''/tmp/ws/script.js''] True]\<rparr>)"
    by (simp add: execute_javascript_def javascript_temp_file_engine0 javascript_try_def
      write_text_def host_slow_def host_ok_def world0_def create_subprocess_def
      limits_applied_def str_path_script_js result_of_exit_def finally_unlink_def exists_def
      unlink_def)
  have 2: "execute_javascript (code_executor engine0) ''setInterval(() => {}, 1000)'' host_hang world0 =
           (None, world0\<lparr>fs := [Path ''/'' [''tmp'', ''ws'', ''script.js''] \<mapsto> File ''setInterval(() => {}, 1000)''],
                         spawned := [SubprocessExec ''node'' [''/tmp/ws/script.js''] True]\<rparr>)"
    by (simp add: execute_javascript_def javascript_temp_file_engine0 javascript_try_def
      write_text_def host_hang_def host_ok_def world0_def create_subprocess_def
      limits_applied_def str_path_script_js finally_unlink_def)
  have 3: "execute_python (code_executor engine0) ''import time; time.sleep(60)''
             host_slow world0 =
           (Some (Inr (mk_result False '''' (Some ''Execution timeout''))),
            world0\<lparr>spawned := [SubprocessExec ''/usr/bin/python3'' [''/tmp/ws/script.py''] True],
                   terminated := [0]\<rparr>)"
    by (simp add: execute_python_def python_temp_file_engine0 python_try_def python_except_def
      write_text_def host_slow_def host_ok_def world0_def create_subprocess_def
      limits_applied_def str_path_script_py MAX_TIME_def finally_unlink_def exists_def
      unlink_def)
  show ?thesis
    using 1 2 3 by (simp add: execute_code_def js py world0_def)
qed

section \<open>Installing dependencies\<close>

text \<open>
  Claim C8. With an empty package list, in every language and on every host,
  \<open>install_dependencies\<close> returns a result with \<open>success = True\<close> whose installed
  packages, read as the dispatcher reads them (\<open>result.get("installed", [])\<close>), are
  the empty list, and it leaves the world as it was: no process is spawned.
\<close>

theorem install_nothing_succeeds:
  "Executor_install_dependencies ex [] language ev w =
     (Some (Inr [''success'' \<mapsto> PyBool True, ''output'' \<mapsto> PyStr ''No packages to install'']), w)
   \<and> get_installed [''success'' \<mapsto> PyBool True, ''output'' \<mapsto> PyStr ''No packages to install'']
       = PyList []
   \<and> spawned (snd (Executor_install_dependencies ex [] language ev w)) = spawned w"
  by (simp add: Executor_install_dependencies_def install_dependencies_def get_installed_def)

text \<open>
  Claim C9, as stated, puts the message of an unknown language into the \<open>error\<close>
  field. The result for \<open>ruby\<close> has no \<open>error\<close> entry at all.
\<close>

theorem unknown_manager_has_no_error_entry:
  "(case fst (Executor_install_dependencies engine0 [''rails''] ''ruby'' host_ok world0) of
      Some (Inr result) \<Rightarrow> result ''error'' = None
    | _ \<Rightarrow> False)"
  by (simp add: Executor_install_dependencies_def install_dependencies_def package_managers_def)

text \<open>
  Claim C9, amended. For a non-empty package list and a language that is not a key of
  \<open>package_managers\<close>, \<open>install_dependencies\<close> returns (it does not raise) a result
  with \<open>success = False\<close> whose \<open>output\<close> field carries the message
  \<open>Unsupported language: <language>\<close>; the result has no \<open>error\<close> entry, its
  installed packages as the dispatcher reads them are the empty list, and the world is
  unchanged: no process is spawned.
\<close>

theorem unknown_manager_fails_in_output:
  assumes "packages \<noteq> []" and "language \<notin> dom package_managers"
  shows "Executor_install_dependencies ex packages language ev w =
           (Some (Inr [''success'' \<mapsto> PyBool False,
                       ''output'' \<mapsto> PyStr (''Unsupported language: '' @ language)]), w)
       \<and> [''success'' \<mapsto> PyBool False,
          ''output'' \<mapsto> PyStr (''Unsupported language: '' @ language)] ''error'' = None
       \<and> get_installed [''success'' \<mapsto> PyBool False,
                         ''output'' \<mapsto> PyStr (''Unsupported language: '' @ language)] = PyList []"
proof -
  from assms(2) have "package_managers language = None"
    by (cases "package_managers language") (auto simp: dom_def)
  with assms(1) show ?thesis
    by (simp add: Executor_install_dependencies_def install_dependencies_def get_installed_def)
qed

theorem unknown_manager_fails_in_output_witness:
  "[''rails''] \<noteq> [] \<and> ''ruby'' \<notin> dom package_managers
   \<and> Executor_install_dependencies engine0 [''rails''] ''ruby'' host_ok world0 =
       (Some (Inr [''success'' \<mapsto> PyBool False,
                   ''output'' \<mapsto> PyStr ''Unsupported language: ruby'']), world0)"
proof -
  have a: "[''rails''] \<noteq> []"
    by simp
  have b: "''ruby'' \<notin> dom package_managers"
    by (simp add: package_managers_def)
  from unknown_manager_fails_in_output [OF a b, of engine0 host_ok world0] a b show ?thesis
    by simp
qed

section \<open>Shutdown\<close>

lemma cleanup_idempotent: "cleanup ex (cleanup ex w) = cleanup ex w"
  by (simp add: cleanup_def rmtree_def exists_def under_def split: option.splits node.splits)

text \<open>
  Claim C6 asks that after shutdown no workspace directory created by the engine
  remain. An engine constructed without a workspace directory creates two: one in
  \<open>CodeExecutor.__init__\<close> and one in \<open>Executor.__init__\<close>. \<open>cleanup\<close> removes the
  second only; the first, the one the runners write to, is still there after one call
  and after two. (Calling \<open>cleanup\<close> twice is harmless: \<open>cleanup_idempotent\<close>.)
\<close>

theorem cleanup_leaves_code_executor_workspace:
  "(case Executor_init None world0 of
      (Inr ex, w) \<Rightarrow>
        workspace_dir (code_executor ex) = ''/tmp/ai_agent_k3x9w2ab''
        \<and> executor_workspace_dir ex = ''/tmp/ai_agent_p0q7m4zz''
        \<and> fs w (PurePath ''/tmp/ai_agent_k3x9w2ab'') = Some Dir
        \<and> fs w (PurePath ''/tmp/ai_agent_p0q7m4zz'') = Some Dir
        \<and> fs (cleanup ex w) (PurePath ''/tmp/ai_agent_p0q7m4zz'') = None
        \<and> fs (cleanup ex w) (PurePath ''/tmp/ai_agent_k3x9w2ab'') = Some Dir
        \<and> fs (cleanup ex (cleanup ex w)) (PurePath ''/tmp/ai_agent_k3x9w2ab'') = Some Dir
    | (Inl e, w) \<Rightarrow> False)"
  by (simp add: Executor_init_def CodeExecutor_init_def workspace_or_mkdtemp_def mkdtemp_def
      world0_def tempdir_def PurePath_def path_root_def cleanup_def exists_def rmtree_def
      under_def)

section \<open>The path of the temporary file\<close>

text \<open>
  Claim C1 asks that two invocations in flight never be given the same path. The path
  of a runner is computed from the workspace directory alone, \<open>script.py\<close> or
  \<open>script.js\<close> below it, so two Python invocations on one engine share it. With
  \<open>print(1)\<close> written by the first invocation (which then waits for its spawn), the
  write of a second invocation replaces the source the first is about to run; and if
  the second invocation runs to its end in between, its \<open>finally\<close> clause removes the
  file, so that the first has no source left.
\<close>

theorem concurrent_invocations_share_temp_file:
  "python_temp_file (code_executor engine0) = Path ''/'' [''tmp'', ''ws'', ''script.py'']
   \<and> (let p = python_temp_file (code_executor engine0);
          w1 = snd (write_text host_ok p ''print(1)'' world0);
          w2 = snd (write_text host_ok p ''print(2)'' w1)
      in fs w1 p = Some (File ''print(1)'') \<and> fs w2 p = Some (File ''print(2)''))
   \<and> (let p = python_temp_file (code_executor engine0);
          w1 = snd (write_text host_ok p ''print(1)'' world0);
          w2 = snd (execute_python (code_executor engine0) ''print(2)'' host_ok w1)
      in fs w1 p = Some (File ''print(1)'') \<and> fs w2 p = None)"
  by (simp add: python_temp_file_engine0 write_text_def host_ok_def world0_def
      execute_python_def python_try_def create_subprocess_def limits_applied_def
      str_path_script_py MAX_TIME_def result_of_exit_def finally_unlink_def exists_def
      unlink_def)

end
